theory Spec2Isabelle
  imports Complex_Main
begin

section \<open>Values of the JavaScript run time\<close>

text \<open>
  The client is one TypeScript module, \<^verbatim>\<open>src/App.tsx\<close>. Its functions are embedded as HOL
  functions over explicit state. What the browser and the libraries decide (the result of
  \<^verbatim>\<open>JSON.parse\<close>, of \<^verbatim>\<open>Number\<close> and \<^verbatim>\<open>String\<close>, the wording of engine errors, fresh
  identifiers, the way a \<^verbatim>\<open>fetch\<close> settles) enters every function as an argument.

  A value produced by \<^verbatim>\<open>JSON.parse\<close> or \<^verbatim>\<open>res.json()\<close>. A finite JavaScript number is a
  rational. \<open>JObject\<close> lists the own properties of the parsed object, each key once.
\<close>

datatype json =
    JNull
  | JBool bool
  | JNumber rat
  | JString string
  | JArray "json list"
  | JObject "(string \<times> json) list"

text \<open>A JavaScript value read from unchecked data: \<open>None\<close> is \<^verbatim>\<open>undefined\<close>.\<close>

type_synonym jsvalue = "json option"

text \<open>
  What a \<^verbatim>\<open>catch (e)\<close> can receive: an \<^verbatim>\<open>Error\<close> instance with its message, or any other
  value, given by the result of \<^verbatim>\<open>String(e)\<close> (\<open>None\<close> when that conversion throws).
\<close>

datatype thrown = JsError string | NonError "string option"

text \<open>
  The library functions the module calls. \<open>JSON_parse\<close> returns \<open>Inl\<close> with the message
  of the \<^verbatim>\<open>SyntaxError\<close> on text that is not JSON. \<open>Number_js\<close> returns \<open>None\<close> for a
  result that is not finite (\<^verbatim>\<open>NaN\<close>, an infinity). \<open>null_read p\<close> is the message of the
  \<^verbatim>\<open>TypeError\<close> raised by reading property \<open>p\<close> of \<^verbatim>\<open>null\<close>, and \<open>abort_message\<close> the
  message of the rejection of an aborted \<^verbatim>\<open>fetch\<close>.
\<close>

record js_engine =
  JSON_parse :: "string \<Rightarrow> string + json"
  Number_js :: "string \<Rightarrow> rat option"
  String_js :: "rat \<Rightarrow> string"
  null_read :: "string \<Rightarrow> string"
  abort_message :: string

text \<open>
  \<^verbatim>\<open>String.prototype.trim\<close>. A \<open>string\<close> holds code units below 256; the white space and
  line terminators of ECMAScript in that range are TAB, LF, VT, FF, CR, SP and NBSP.
\<close>

definition is_ws :: "char \<Rightarrow> bool" where
  "is_ws c = (c \<in> set [CHR 0x09, CHR 0x0A, CHR 0x0B, CHR 0x0C, CHR 0x0D, CHR 0x20, CHR 0xA0])"

definition trim :: "string \<Rightarrow> string" where
  "trim s = rev (dropWhile is_ws (rev (dropWhile is_ws s)))"

text \<open>
  Reading \<^verbatim>\<open>data.response\<close> or \<^verbatim>\<open>data.response_generated_via\<close> on parsed JSON: a
  \<^verbatim>\<open>TypeError\<close> on \<^verbatim>\<open>null\<close>, the property of an object when it has one, \<^verbatim>\<open>undefined\<close>
  otherwise (no prototype of a string, number, boolean or array has a property of
  either name).
\<close>

fun get_prop :: "js_engine \<Rightarrow> json \<Rightarrow> string \<Rightarrow> thrown + jsvalue" where
  "get_prop eng JNull name = Inl (JsError (null_read eng name))"
| "get_prop eng (JObject kvs) name = Inr (map_of kvs name)"
| "get_prop eng (JBool b) name = Inr None"
| "get_prop eng (JNumber n) name = Inr None"
| "get_prop eng (JString s) name = Inr None"
| "get_prop eng (JArray vs) name = Inr None"

section \<open>The toast store\<close>

datatype toast_type = Info | Error

record Toast =
  id_toast :: rat
  text_toast :: string
  type_toast :: "toast_type option"

text \<open>
  \<^verbatim>\<open>push\<close> and \<^verbatim>\<open>remove\<close> of \<^verbatim>\<open>useToastStore\<close>. The identifier
  \<^verbatim>\<open>Date.now() + Math.random()\<close> is the argument \<open>fresh\<close>.
\<close>

definition toast_push :: "rat \<Rightarrow> string \<Rightarrow> toast_type option \<Rightarrow> Toast list \<Rightarrow> Toast list" where
  "toast_push fresh txt ty ts = ts @ [\<lparr>id_toast = fresh, text_toast = txt, type_toast = ty\<rparr>]"

definition toast_remove :: "rat \<Rightarrow> Toast list \<Rightarrow> Toast list" where
  "toast_remove i ts = filter (\<lambda>x. id_toast x \<noteq> i) ts"

fun parseApiError :: "thrown \<Rightarrow> string" where
  "parseApiError (JsError m) = (if m = [] then ''Request failed'' else m)"
| "parseApiError (NonError (Some s)) = s"
| "parseApiError (NonError None) = ''Request failed''"

section \<open>The API client\<close>

datatype http_verb = GET | POST

record request =
  verb :: http_verb
  url :: string
  headers :: "(string \<times> string) list"
  body :: "json option"
  signal :: "nat option"

text \<open>
  How a \<^verbatim>\<open>fetch\<close> settles: the promise rejects, or a response arrives with its \<^verbatim>\<open>ok\<close>
  flag and the result of reading its body (\<open>Inl\<close> when \<^verbatim>\<open>res.text()\<close> or \<^verbatim>\<open>res.json()\<close>
  rejects before any text is there).
\<close>

datatype fetch_outcome = Rejects thrown | Responds bool "thrown + string"

definition API_BASE :: string where
  "API_BASE = ''http://localhost:8080/api/v1/llm''"

definition apiGet_request :: "string \<Rightarrow> nat option \<Rightarrow> request" where
  "apiGet_request path sig =
     \<lparr>verb = GET, url = API_BASE @ path, headers = [], body = None, signal = sig\<rparr>"

definition apiPost_request :: "string \<Rightarrow> json \<Rightarrow> nat option \<Rightarrow> request" where
  "apiPost_request path b sig =
     \<lparr>verb = POST, url = API_BASE @ path,
      headers = [(''Content-Type'', ''application/json'')], body = Some b, signal = sig\<rparr>"

text \<open>
  What \<^verbatim>\<open>await apiGet(...)\<close> and \<^verbatim>\<open>await apiPost(...)\<close> give once the \<^verbatim>\<open>fetch\<close> has settled:
  \<open>Inl\<close> is the value thrown.
\<close>

definition apiGet :: "js_engine \<Rightarrow> fetch_outcome \<Rightarrow> thrown + json" where
  "apiGet eng out =
     (case out of
        Rejects e \<Rightarrow> Inl e
      | Responds ok read \<Rightarrow>
          (case read of
             Inl e \<Rightarrow> Inl e
           | Inr t \<Rightarrow>
               if \<not> ok then Inl (JsError t)
               else (case JSON_parse eng t of Inl m \<Rightarrow> Inl (JsError m) | Inr v \<Rightarrow> Inr v)))"

definition apiPost :: "js_engine \<Rightarrow> fetch_outcome \<Rightarrow> thrown + json" where
  "apiPost eng out =
     (case out of
        Rejects e \<Rightarrow> Inl e
      | Responds ok read \<Rightarrow>
          (case read of
             Inl e \<Rightarrow> Inl e
           | Inr t \<Rightarrow>
               if \<not> ok then Inl (JsError t)
               else (case JSON_parse eng t of Inl m \<Rightarrow> Inl (JsError m) | Inr v \<Rightarrow> Inr v)))"

section \<open>State of the views\<close>

datatype role = User | Ai

text \<open>
  \<^verbatim>\<open>ChatMessage\<close>. TypeScript types \<open>text\<close> as a string, but the model chat copies the
  fields of an unchecked response into it, so both \<open>text\<close> and \<open>via\<close> hold whatever
  value was read.
\<close>

record ChatMessage =
  id_msg :: string
  role :: role
  text_msg :: jsvalue
  via :: jsvalue

record chat_surface =
  messages :: "ChatMessage list"
  input :: string
  loading :: bool

record chat_page = chat_surface +
  selectedModel :: string

text \<open>
  A view together with what it shares with the rest of the page: the toast store, the
  requests issued so far (oldest first) and the abort controllers whose \<^verbatim>\<open>abort()\<close> has
  been called.
\<close>

record 'u world =
  ui :: 'u
  toasts :: "Toast list"
  net :: "request list"
  aborted :: "nat list"

definition userMsg :: "string \<Rightarrow> string \<Rightarrow> ChatMessage" where
  "userMsg uid q = \<lparr>id_msg = uid, role = User, text_msg = Some (JString q), via = None\<rparr>"

definition raise_error :: "rat \<Rightarrow> thrown \<Rightarrow> 'u world \<Rightarrow> 'u world" where
  "raise_error fresh e w = w\<lparr>toasts := toast_push fresh (parseApiError e) (Some Error) (toasts w)\<rparr>"

section \<open>Model chat\<close>

text \<open>
  A registered model as TypeScript types it (\<^verbatim>\<open>Llm\<close>), and the value of its entry in the
  model selector of \<^verbatim>\<open>ChatPage\<close>, \<^verbatim>\<open>String(m.id)\<close>; the other entry has the value \<^verbatim>\<open>'auto'\<close>.
\<close>

record Llm =
  id_llm :: rat
  modelName_llm :: string
  companyName_llm :: string
  baseUrl_llm :: "string option"
  apiKey_llm :: "string option"
  openAiCompatible_llm :: bool

definition option_value :: "js_engine \<Rightarrow> Llm \<Rightarrow> string" where
  "option_value eng m = String_js eng (id_llm m)"

text \<open>
  The \<open>modelId\<close> member of the request body as \<^verbatim>\<open>JSON.stringify\<close> writes it: \<^verbatim>\<open>null\<close> for
  the selection \<^verbatim>\<open>'auto'\<close>, else \<^verbatim>\<open>Number(selectedModel)\<close>, which is written as \<^verbatim>\<open>null\<close>
  too when it is not finite.
\<close>

definition modelId :: "js_engine \<Rightarrow> string \<Rightarrow> json" where
  "modelId eng sel =
     (if sel = ''auto'' then JNull
      else (case Number_js eng sel of None \<Rightarrow> JNull | Some n \<Rightarrow> JNumber n))"

definition chat_request :: "js_engine \<Rightarrow> string \<Rightarrow> string \<Rightarrow> request" where
  "chat_request eng q sel =
     apiPost_request ''/chat'' (JObject [(''query'', JString q), (''modelId'', modelId eng sel)]) None"

text \<open>
  \<^verbatim>\<open>ChatPage.sendMessage\<close> in two parts. The first runs to the \<^verbatim>\<open>await\<close>: it returns
  \<open>None\<close> when the function leaves at \<^verbatim>\<open>if (!q) return\<close>, else the state in which the request
  is issued and that request. The second is the continuation, from the settled
  \<^verbatim>\<open>fetch\<close>: \<open>ChatPage_try\<close> is its \<^verbatim>\<open>try\<close> block, giving the value thrown or the message
  to append. \<open>uid\<close> and \<open>uid'\<close> are the two results of \<^verbatim>\<open>crypto.randomUUID()\<close>. The state
  read is the one the running closure captured, state setters take effect in the order of
  their calls, and the view stays mounted.
\<close>

definition ChatPage_sendMessage_begin ::
    "js_engine \<Rightarrow> string \<Rightarrow> chat_page \<Rightarrow> (chat_page \<times> request) option" where
  "ChatPage_sendMessage_begin eng uid s =
     (let q = trim (input s) in
      if q = [] then None
      else Some (s\<lparr>input := [], messages := messages s @ [userMsg uid q], loading := True\<rparr>,
                 chat_request eng q (selectedModel s)))"

definition ChatPage_try :: "js_engine \<Rightarrow> string \<Rightarrow> fetch_outcome \<Rightarrow> thrown + ChatMessage" where
  "ChatPage_try eng uid' out =
     (case apiPost eng out of
        Inl e \<Rightarrow> Inl e
      | Inr data \<Rightarrow>
          (case get_prop eng data ''response'' of
             Inl e \<Rightarrow> Inl e
           | Inr t \<Rightarrow>
               (case get_prop eng data ''response_generated_via'' of
                  Inl e \<Rightarrow> Inl e
                | Inr v \<Rightarrow> Inr \<lparr>id_msg = uid', role = Ai, text_msg = t, via = v\<rparr>)))"

definition ChatPage_sendMessage_resume ::
    "js_engine \<Rightarrow> string \<Rightarrow> rat \<Rightarrow> fetch_outcome \<Rightarrow> chat_page world \<Rightarrow> chat_page world" where
  "ChatPage_sendMessage_resume eng uid' fresh out w =
     (let w' =
        (case ChatPage_try eng uid' out of
           Inr aiMsg \<Rightarrow> w\<lparr>ui := (ui w)\<lparr>messages := messages (ui w) @ [aiMsg]\<rparr>\<rparr>
         | Inl e \<Rightarrow> raise_error fresh e w)
      in w'\<lparr>ui := (ui w')\<lparr>loading := False\<rparr>\<rparr>)"

definition ChatPage_sendMessage ::
    "js_engine \<Rightarrow> string \<Rightarrow> string \<Rightarrow> rat \<Rightarrow> fetch_outcome \<Rightarrow> chat_page world \<Rightarrow> chat_page world" where
  "ChatPage_sendMessage eng uid uid' fresh out w =
     (case ChatPage_sendMessage_begin eng uid (ui w) of
        None \<Rightarrow> w
      | Some (s, req) \<Rightarrow>
          ChatPage_sendMessage_resume eng uid' fresh out (w\<lparr>ui := s, net := net w @ [req]\<rparr>))"

text \<open>
  The view with the key listener of its effect. The effect that registers \<^verbatim>\<open>onEnter\<close> depends
  on \<^verbatim>\<open>[input]\<close> only, so the listener calls the \<^verbatim>\<open>sendMessage\<close> of the last render in which
  \<open>input\<close> changed: \<open>listener\<close> is the state that render captured, \<open>page\<close> the current state.
  The Send button calls the \<^verbatim>\<open>sendMessage\<close> of the current render.
\<close>

record chat_view =
  page :: chat_page
  listener :: chat_page

definition ChatPage_mount :: "chat_page \<Rightarrow> chat_view" where
  "ChatPage_mount s = \<lparr>page = s, listener = s\<rparr>"

text \<open>A render with the new state \<open>s\<close>: the effect runs again when \<open>input\<close> differs.\<close>

definition ChatPage_render :: "chat_page \<Rightarrow> chat_view \<Rightarrow> chat_view" where
  "ChatPage_render s cv =
     \<lparr>page = s, listener = (if input s \<noteq> input (page cv) then s else listener cv)\<rparr>"

text \<open>The \<^verbatim>\<open>onChange\<close> handlers of the text area and of the model selector.\<close>

definition ChatPage_onChange_input :: "string \<Rightarrow> chat_view \<Rightarrow> chat_view" where
  "ChatPage_onChange_input v cv = ChatPage_render ((page cv)\<lparr>input := v\<rparr>) cv"

definition ChatPage_onChange_model :: "string \<Rightarrow> chat_view \<Rightarrow> chat_view" where
  "ChatPage_onChange_model v cv = ChatPage_render ((page cv)\<lparr>selectedModel := v\<rparr>) cv"

text \<open>
  The first part of \<^verbatim>\<open>sendMessage\<close> run from the closure of a render that captured \<open>c\<close>,
  while the state of the view is \<open>s\<close>: \<open>input\<close> and \<open>selectedModel\<close> are read from \<open>c\<close>, the
  setters act on \<open>s\<close>. \<open>ChatPage_sendMessage_begin\<close> is the case \<open>c = s\<close>.
\<close>

definition ChatPage_sendMessage_from ::
    "js_engine \<Rightarrow> string \<Rightarrow> chat_page \<Rightarrow> chat_page \<Rightarrow> (chat_page \<times> request) option" where
  "ChatPage_sendMessage_from eng uid c s =
     (let q = trim (input c) in
      if q = [] then None
      else Some (s\<lparr>input := [], messages := messages s @ [userMsg uid q], loading := True\<rparr>,
                 chat_request eng q (selectedModel c)))"

text \<open>\<^verbatim>\<open>onEnter\<close> on Ctrl/Cmd+Enter, up to the \<^verbatim>\<open>await\<close>.\<close>

definition ChatPage_onEnter :: "js_engine \<Rightarrow> string \<Rightarrow> chat_view \<Rightarrow> (chat_view \<times> request) option" where
  "ChatPage_onEnter eng uid cv =
     (case ChatPage_sendMessage_from eng uid (listener cv) (page cv) of
        None \<Rightarrow> None
      | Some (s, req) \<Rightarrow> Some (ChatPage_render s cv, req))"

section \<open>Block-explorer chat\<close>

definition explorer_request :: "string \<Rightarrow> request" where
  "explorer_request q =
     \<lparr>verb = POST, url = ''http://localhost:8010/api/v1/transactions/chat'',
      headers = [(''Content-Type'', ''application/json'')],
      body = Some (JObject [(''query'', JString q)]), signal = None\<rparr>"

text \<open>
  The text shown for a response body \<open>raw\<close>: the inner \<^verbatim>\<open>try\<close> of
  \<^verbatim>\<open>BlockExplorerChat.sendMessage\<close>, whose \<^verbatim>\<open>catch {}\<close> keeps \<open>raw\<close>.
\<close>

definition resolve_md :: "js_engine \<Rightarrow> string \<Rightarrow> string" where
  "resolve_md eng raw =
     (case JSON_parse eng raw of
        Inl m \<Rightarrow> raw
      | Inr parsed \<Rightarrow>
          (case parsed of
             JString s \<Rightarrow> s
           | JObject kvs \<Rightarrow>
               (case map_of kvs ''response'' of Some (JString r) \<Rightarrow> r | _ \<Rightarrow> raw)
           | _ \<Rightarrow> raw))"

definition BlockExplorerChat_sendMessage_begin ::
    "string \<Rightarrow> chat_surface \<Rightarrow> (chat_surface \<times> request) option" where
  "BlockExplorerChat_sendMessage_begin uid s =
     (let q = trim (input s) in
      if q = [] then None
      else Some (s\<lparr>input := [], messages := messages s @ [userMsg uid q], loading := True\<rparr>,
                 explorer_request q))"

definition BlockExplorerChat_try ::
    "js_engine \<Rightarrow> string \<Rightarrow> fetch_outcome \<Rightarrow> thrown + ChatMessage" where
  "BlockExplorerChat_try eng uid' out =
     (case out of
        Rejects e \<Rightarrow> Inl e
      | Responds ok read \<Rightarrow>
          (case read of
             Inl e \<Rightarrow> Inl e
           | Inr raw \<Rightarrow>
               if \<not> ok then Inl (JsError raw)
               else Inr \<lparr>id_msg = uid', role = Ai,
                         text_msg = Some (JString (resolve_md eng raw)), via = None\<rparr>))"

definition BlockExplorerChat_sendMessage_resume ::
    "js_engine \<Rightarrow> string \<Rightarrow> rat \<Rightarrow> fetch_outcome \<Rightarrow> chat_surface world \<Rightarrow> chat_surface world" where
  "BlockExplorerChat_sendMessage_resume eng uid' fresh out w =
     (let w' =
        (case BlockExplorerChat_try eng uid' out of
           Inr aiMsg \<Rightarrow> w\<lparr>ui := (ui w)\<lparr>messages := messages (ui w) @ [aiMsg]\<rparr>\<rparr>
         | Inl e \<Rightarrow> raise_error fresh e w)
      in w'\<lparr>ui := (ui w')\<lparr>loading := False\<rparr>\<rparr>)"

definition BlockExplorerChat_sendMessage ::
    "js_engine \<Rightarrow> string \<Rightarrow> string \<Rightarrow> rat \<Rightarrow> fetch_outcome \<Rightarrow> chat_surface world
       \<Rightarrow> chat_surface world" where
  "BlockExplorerChat_sendMessage eng uid uid' fresh out w =
     (case BlockExplorerChat_sendMessage_begin uid (ui w) of
        None \<Rightarrow> w
      | Some (s, req) \<Rightarrow>
          BlockExplorerChat_sendMessage_resume eng uid' fresh out
            (w\<lparr>ui := s, net := net w @ [req]\<rparr>))"

section \<open>Registration\<close>

record register_page =
  modelName :: string
  companyName :: string
  baseUrl :: string
  apiKey :: string
  openAiCompatible :: bool
  submitting :: bool

text \<open>\<^verbatim>\<open>x || null\<close> on a string: the empty string is the only falsy one.\<close>

definition or_null :: "string \<Rightarrow> json" where
  "or_null x = (if x = [] then JNull else JString x)"

definition register_request :: "register_page \<Rightarrow> request" where
  "register_request s =
     apiPost_request ''/register''
       (JObject [(''modelName'', JString (modelName s)),
                 (''companyName'', JString (companyName s)),
                 (''baseUrl'', or_null (baseUrl s)),
                 (''apiKey'', or_null (apiKey s)),
                 (''openAiCompatible'', JBool (openAiCompatible s))]) None"

text \<open>
  \<^verbatim>\<open>RegisterPage.onSubmit\<close>. The property \<^verbatim>\<open>onRegistered\<close> is an argument, as in the source;
  \<open>fresh\<close> is the identifier of the one toast a run pushes.
\<close>

definition RegisterPage_onSubmit_resume ::
    "js_engine \<Rightarrow> (register_page world \<Rightarrow> register_page world) \<Rightarrow> rat \<Rightarrow> fetch_outcome
       \<Rightarrow> register_page world \<Rightarrow> register_page world" where
  "RegisterPage_onSubmit_resume eng onRegistered fresh out w =
     (let w' =
        (case apiPost eng out of
           Inr llm \<Rightarrow>
             onRegistered
               (w\<lparr>toasts := toast_push fresh ''Model registered'' None (toasts w),
                  ui := (ui w)\<lparr>modelName := [], companyName := [], baseUrl := [], apiKey := [],
                                openAiCompatible := True\<rparr>\<rparr>)
         | Inl e \<Rightarrow> raise_error fresh e w)
      in w'\<lparr>ui := (ui w')\<lparr>submitting := False\<rparr>\<rparr>)"

definition RegisterPage_onSubmit ::
    "js_engine \<Rightarrow> (register_page world \<Rightarrow> register_page world) \<Rightarrow> rat \<Rightarrow> fetch_outcome
       \<Rightarrow> register_page world \<Rightarrow> register_page world" where
  "RegisterPage_onSubmit eng onRegistered fresh out w =
     (if trim (modelName (ui w)) = [] \<or> trim (companyName (ui w)) = [] then
        w\<lparr>toasts := toast_push fresh ''Model name and company are required'' (Some Error) (toasts w)\<rparr>
      else
        RegisterPage_onSubmit_resume eng onRegistered fresh out
          (w\<lparr>ui := (ui w)\<lparr>submitting := True\<rparr>, net := net w @ [register_request (ui w)]\<rparr>))"

section \<open>The application shell\<close>

datatype Tab = Chat | Register | Block_explorer

text \<open>
  The state of \<^verbatim>\<open>App\<close>. \<open>llms\<close> is \<^verbatim>\<open>null\<close> (\<open>None\<close>) or the parsed body of \<^verbatim>\<open>GET /\<close>, which
  is cast and never checked. \<open>mounted\<close> tells whether the component is still there: React
  drops a state update of a component that is gone.
\<close>

record app =
  collapsed :: bool
  active :: Tab
  llms :: "json option"
  loadingModels :: bool
  mounted :: bool

definition set_app :: "(app \<Rightarrow> app) \<Rightarrow> app world \<Rightarrow> app world" where
  "set_app f w = (if mounted (ui w) then w\<lparr>ui := f (ui w)\<rparr> else w)"

text \<open>
  \<^verbatim>\<open>reloadModels\<close>: the call issues \<^verbatim>\<open>GET /\<close>; the promise chain runs once the \<^verbatim>\<open>fetch\<close> has
  settled.
\<close>

definition reloadModels_begin :: "'u world \<Rightarrow> 'u world" where
  "reloadModels_begin w = w\<lparr>net := net w @ [apiGet_request ''/'' None]\<rparr>"

definition reloadModels_resume :: "js_engine \<Rightarrow> rat \<Rightarrow> fetch_outcome \<Rightarrow> app world \<Rightarrow> app world" where
  "reloadModels_resume eng fresh out w =
     (case apiGet eng out of
        Inr v \<Rightarrow> set_app (\<lambda>a. a\<lparr>llms := Some v\<rparr>) w
      | Inl e \<Rightarrow> raise_error fresh e w)"

text \<open>
  The mount effect of \<^verbatim>\<open>App\<close>, with the controller \<open>c\<close> it creates: the body of the effect,
  the cleanup it returns, and the promise chain
  \<^verbatim>\<open>.then(setLlms).catch(...).finally(...)\<close>.
\<close>

definition App_effect :: "nat \<Rightarrow> app world \<Rightarrow> app world" where
  "App_effect c w =
     (set_app (\<lambda>a. a\<lparr>loadingModels := True\<rparr>) w)\<lparr>net := net w @ [apiGet_request ''/'' None]\<rparr>"

definition App_cleanup :: "nat \<Rightarrow> app world \<Rightarrow> app world" where
  "App_cleanup c w = w\<lparr>aborted := c # aborted w\<rparr>"

definition App_effect_resume :: "js_engine \<Rightarrow> rat \<Rightarrow> fetch_outcome \<Rightarrow> app world \<Rightarrow> app world" where
  "App_effect_resume eng fresh out w =
     (let w' =
        (case apiGet eng out of
           Inr v \<Rightarrow> set_app (\<lambda>a. a\<lparr>llms := Some v\<rparr>) w
         | Inl e \<Rightarrow> raise_error fresh e w)
      in set_app (\<lambda>a. a\<lparr>loadingModels := False\<rparr>) w')"

text \<open>Tearing the view down runs the cleanup of its effect and removes the component.\<close>

definition App_unmount :: "nat \<Rightarrow> app world \<Rightarrow> app world" where
  "App_unmount c w = (let w' = App_cleanup c w in w'\<lparr>ui := (ui w')\<lparr>mounted := False\<rparr>\<rparr>)"

text \<open>
  What the promise of \<^verbatim>\<open>fetch(url, { ..., signal })\<close> settles to when the server side would
  give \<open>server\<close>: an aborted signal rejects it; a request without a signal is out of reach
  of every controller.
\<close>

definition fetch_settles :: "js_engine \<Rightarrow> nat list \<Rightarrow> request \<Rightarrow> fetch_outcome \<Rightarrow> fetch_outcome" where
  "fetch_settles eng ab req server =
     (case signal req of
        None \<Rightarrow> server
      | Some c \<Rightarrow> if c \<in> set ab then Rejects (JsError (abort_message eng)) else server)"

section \<open>Toast expiry\<close>

text \<open>
  \<^verbatim>\<open>ToastContainer\<close> with the timers of its effect. Time is in milliseconds. A timer
  removes the toast \<open>target\<close> when the clock reaches \<open>due\<close>.
\<close>

record timer =
  target :: rat
  due :: nat

record toast_container =
  shown :: "Toast list"
  timers :: "timer list"

text \<open>
  One run of the effect at time \<open>now\<close>, after the cleanup of the run before it: the cleanup
  clears every timer of that run, the body sets one timer of 3500 ms for each toast of the
  list. The effect depends on \<^verbatim>\<open>[toasts, remove]\<close>, and both \<^verbatim>\<open>push\<close> and \<^verbatim>\<open>remove\<close> store
  a new array, so it runs again after each of them.
\<close>

definition ToastContainer_effect :: "nat \<Rightarrow> toast_container \<Rightarrow> toast_container" where
  "ToastContainer_effect now tc =
     tc\<lparr>timers := map (\<lambda>t. \<lparr>target = id_toast t, due = now + 3500\<rparr>) (shown tc)\<rparr>"

text \<open>A push at time \<open>now\<close>; \<open>rnd\<close> is the result of \<^verbatim>\<open>Math.random()\<close>.\<close>

definition push_at :: "nat \<Rightarrow> rat \<Rightarrow> string \<Rightarrow> toast_type option \<Rightarrow> toast_container \<Rightarrow> toast_container" where
  "push_at now rnd txt ty tc =
     ToastContainer_effect now (tc\<lparr>shown := toast_push (of_nat now + rnd) txt ty (shown tc)\<rparr>)"

text \<open>
  The callback of timer \<open>tm\<close>, run when it is due: it removes the toast, and since the list
  changed the effect runs again, at that time, before another callback does.
\<close>

definition timer_fires :: "timer \<Rightarrow> toast_container \<Rightarrow> toast_container" where
  "timer_fires tm tc =
     ToastContainer_effect (due tm) (tc\<lparr>shown := toast_remove (target tm) (shown tc)\<rparr>)"

text \<open>
  The pending timer that fires next by time \<open>t\<close>: the earliest one due, the oldest among
  those of one instant.
\<close>

definition next_due :: "nat \<Rightarrow> timer list \<Rightarrow> timer option" where
  "next_due t tms =
     (case filter (\<lambda>tm. due tm \<le> t) tms of
        [] \<Rightarrow> None
      | d # ds \<Rightarrow> Some (hd (filter (\<lambda>tm. due tm = fold min (map due ds) (due d)) (d # ds))))"

text \<open>
  Letting the clock run to \<open>t\<close> with no other event. Each firing removes a toast that has a
  timer, so the number of toasts bounds the number of firings.
\<close>

fun run_timers :: "nat \<Rightarrow> nat \<Rightarrow> toast_container \<Rightarrow> toast_container" where
  "run_timers 0 t tc = tc"
| "run_timers (Suc k) t tc =
     (case next_due t (timers tc) of
        None \<Rightarrow> tc
      | Some tm \<Rightarrow> run_timers k t (timer_fires tm tc))"

definition elapse :: "nat \<Rightarrow> toast_container \<Rightarrow> toast_container" where
  "elapse t tc = run_timers (length (shown tc)) t tc"

section \<open>Example values\<close>

text \<open>
  A table of the engine on the inputs of the examples that follow: \<^verbatim>\<open>JSON.parse\<close> on six
  bodies, \<^verbatim>\<open>Number\<close> and \<^verbatim>\<open>String\<close> on 7. It only instantiates theorems that hold for every
  engine.
\<close>

definition example_engine :: js_engine where
  "example_engine =
     \<lparr>JSON_parse = (\<lambda>s.
        if s = ''\"Quoted\"'' then Inr (JString ''Quoted'')
        else if s = ''{\"response\":\"Nested\"}'' then Inr (JObject [(''response'', JString ''Nested'')])
        else if s = ''{\"response\":\"Hi\",\"response_generated_via\":\"gpt-4o-mini\"}'' then
          Inr (JObject [(''response'', JString ''Hi''),
                        (''response_generated_via'', JString ''gpt-4o-mini'')])
        else if s = ''{}'' then Inr (JObject [])
        else if s = ''null'' then Inr JNull
        else if s = ''[]'' then Inr (JArray [])
        else Inl ''Unexpected token''),
      Number_js = (\<lambda>s. if s = ''7'' then Some 7 else None),
      String_js = (\<lambda>n. if n = 7 then ''7'' else ''0''),
      null_read = (\<lambda>p. ''Cannot read properties of null (reading '' @ p @ '')''),
      abort_message = ''The user aborted a request.''\<rparr>"

definition llm7 :: Llm where
  "llm7 =
     \<lparr>id_llm = 7, modelName_llm = ''gpt-4o-mini'', companyName_llm = ''OpenAI'',
      baseUrl_llm = None, apiKey_llm = None, openAiCompatible_llm = True\<rparr>"

definition chat0 :: "chat_page world" where
  "chat0 =
     \<lparr>ui = \<lparr>messages = [], input = ''  Hello '', loading = False, selectedModel = ''auto''\<rparr>,
      toasts = [], net = [], aborted = []\<rparr>"

definition explorer0 :: "chat_surface world" where
  "explorer0 =
     \<lparr>ui = \<lparr>messages = [], input = ''latest block?'', loading = False\<rparr>,
      toasts = [], net = [], aborted = []\<rparr>"

definition register0 :: "register_page world" where
  "register0 =
     \<lparr>ui = \<lparr>modelName = ''gpt-4o-mini'', companyName = ''OpenAI'', baseUrl = [],
             apiKey = ''sk-1'', openAiCompatible = False, submitting = False\<rparr>,
      toasts = [], net = [], aborted = []\<rparr>"

text \<open>
  The model chat after the user typed \<^verbatim>\<open>Hello\<close> and then chose the model with identifier 7
  in the selector.
\<close>

definition stale_view :: chat_view where
  "stale_view =
     ChatPage_onChange_model (option_value example_engine llm7)
       (ChatPage_onChange_input ''Hello''
          (ChatPage_mount \<lparr>messages = [], input = [], loading = False, selectedModel = ''auto''\<rparr>))"

text \<open>
  Two runs of the toast list from the empty list: a toast \<open>A\<close> pushed at time 0 and left
  alone, and the same followed by a toast \<open>B\<close> pushed at time 2000.
\<close>

definition toast_A_alone :: toast_container where
  "toast_A_alone = push_at 0 (1 / 2) ''A'' (Some Error) \<lparr>shown = [], timers = []\<rparr>"

definition toast_A_then_B :: toast_container where
  "toast_A_then_B = push_at 2000 (1 / 4) ''B'' None (elapse 2000 toast_A_alone)"

section \<open>Properties\<close>

lemma list_all_dropWhile: "list_all P (dropWhile P s) = list_all P s"
  by (induction s) simp_all

lemma trim_blank: "trim s = [] \<longleftrightarrow> list_all is_ws s"
  by (simp add: trim_def list_all_dropWhile flip: list_all_iff)

subsection \<open>The continuation of a dispatch\<close>

lemma try_role_chat: "ChatPage_try eng uid' out = Inr m \<Longrightarrow> role m = Ai"
  by (auto simp: ChatPage_try_def split: sum.splits)

lemma try_role_explorer: "BlockExplorerChat_try eng uid' out = Inr m \<Longrightarrow> role m = Ai"
  by (auto simp: BlockExplorerChat_try_def split: sum.splits fetch_outcome.splits if_splits)

lemma ChatPage_resume_thrown:
  "ChatPage_try eng uid' out = Inl e \<Longrightarrow>
   ChatPage_sendMessage_resume eng uid' fresh out w =
     w\<lparr>toasts := toasts w @ [\<lparr>id_toast = fresh, text_toast = parseApiError e, type_toast = Some Error\<rparr>],
       ui := (ui w)\<lparr>loading := False\<rparr>\<rparr>"
  by (simp add: ChatPage_sendMessage_resume_def raise_error_def toast_push_def)

lemma ChatPage_resume_reply:
  "ChatPage_try eng uid' out = Inr m \<Longrightarrow>
   ChatPage_sendMessage_resume eng uid' fresh out w =
     w\<lparr>ui := (ui w)\<lparr>messages := messages (ui w) @ [m], loading := False\<rparr>\<rparr>"
  by (simp add: ChatPage_sendMessage_resume_def)

lemma explorer_resume_thrown:
  "BlockExplorerChat_try eng uid' out = Inl e \<Longrightarrow>
   BlockExplorerChat_sendMessage_resume eng uid' fresh out w =
     w\<lparr>toasts := toasts w @ [\<lparr>id_toast = fresh, text_toast = parseApiError e, type_toast = Some Error\<rparr>],
       ui := (ui w)\<lparr>loading := False\<rparr>\<rparr>"
  by (simp add: BlockExplorerChat_sendMessage_resume_def raise_error_def toast_push_def)

lemma explorer_resume_reply:
  "BlockExplorerChat_try eng uid' out = Inr m \<Longrightarrow>
   BlockExplorerChat_sendMessage_resume eng uid' fresh out w =
     w\<lparr>ui := (ui w)\<lparr>messages := messages (ui w) @ [m], loading := False\<rparr>\<rparr>"
  by (simp add: BlockExplorerChat_sendMessage_resume_def)

lemma ChatPage_resume_net: "net (ChatPage_sendMessage_resume eng uid' fresh out w) = net w"
  by (cases "ChatPage_try eng uid' out") (simp_all add: ChatPage_resume_thrown ChatPage_resume_reply)

lemma explorer_resume_net: "net (BlockExplorerChat_sendMessage_resume eng uid' fresh out w) = net w"
  by (cases "BlockExplorerChat_try eng uid' out") (simp_all add: explorer_resume_thrown explorer_resume_reply)

lemma ChatPage_resume_users:
  "filter (\<lambda>m. role m = User) (messages (ui (ChatPage_sendMessage_resume eng uid' fresh out w))) =
   filter (\<lambda>m. role m = User) (messages (ui w))"
  by (cases "ChatPage_try eng uid' out")
     (simp_all add: ChatPage_resume_thrown ChatPage_resume_reply try_role_chat)

lemma explorer_resume_users:
  "filter (\<lambda>m. role m = User) (messages (ui (BlockExplorerChat_sendMessage_resume eng uid' fresh out w))) =
   filter (\<lambda>m. role m = User) (messages (ui w))"
  by (cases "BlockExplorerChat_try eng uid' out")
     (simp_all add: explorer_resume_thrown explorer_resume_reply try_role_explorer)

subsection \<open>Sending a message\<close>

text \<open>
  Claim C3. On either chat surface, when the input is empty or holds white space only,
  \<open>sendMessage\<close> leaves at its first test: nothing at all changes, no message is added and
  no request is issued. Otherwise the state in which the request is issued already holds
  the old conversation followed by one message of role \<open>User\<close> whose text is the trimmed
  input, the whole run issues exactly one request, and that message is the only user
  message it adds.
\<close>

theorem C3_blank_is_noop_else_one_user_message:
  fixes w :: "chat_page world" and x :: "chat_surface world"
  shows
  "(list_all is_ws (input (ui w)) \<longrightarrow>
      ChatPage_sendMessage_begin eng uid (ui w) = None \<and>
      ChatPage_sendMessage eng uid uid' fresh out w = w) \<and>
   (list_all is_ws (input (ui x)) \<longrightarrow>
      BlockExplorerChat_sendMessage_begin uid (ui x) = None \<and>
      BlockExplorerChat_sendMessage eng uid uid' fresh out x = x) \<and>
   (\<not> list_all is_ws (input (ui w)) \<longrightarrow>
      map_option (messages \<circ> fst) (ChatPage_sendMessage_begin eng uid (ui w)) =
        Some (messages (ui w) @ [\<lparr>id_msg = uid, role = User, text_msg = Some (JString (trim (input (ui w)))), via = None\<rparr>]) \<and>
      net (ChatPage_sendMessage eng uid uid' fresh out w) =
        net w @ [chat_request eng (trim (input (ui w))) (selectedModel (ui w))] \<and>
      filter (\<lambda>m. role m = User) (messages (ui (ChatPage_sendMessage eng uid uid' fresh out w))) =
        filter (\<lambda>m. role m = User) (messages (ui w)) @ [\<lparr>id_msg = uid, role = User, text_msg = Some (JString (trim (input (ui w)))), via = None\<rparr>]) \<and>
   (\<not> list_all is_ws (input (ui x)) \<longrightarrow>
      map_option (messages \<circ> fst) (BlockExplorerChat_sendMessage_begin uid (ui x)) =
        Some (messages (ui x) @ [\<lparr>id_msg = uid, role = User, text_msg = Some (JString (trim (input (ui x)))), via = None\<rparr>]) \<and>
      net (BlockExplorerChat_sendMessage eng uid uid' fresh out x) =
        net x @ [explorer_request (trim (input (ui x)))] \<and>
      filter (\<lambda>m. role m = User) (messages (ui (BlockExplorerChat_sendMessage eng uid uid' fresh out x))) =
        filter (\<lambda>m. role m = User) (messages (ui x)) @ [\<lparr>id_msg = uid, role = User, text_msg = Some (JString (trim (input (ui x)))), via = None\<rparr>])"
proof (intro conjI impI)
  assume b: "list_all is_ws (input (ui w))"
  then show "ChatPage_sendMessage_begin eng uid (ui w) = None"
    by (simp add: ChatPage_sendMessage_begin_def trim_blank)
  then show "ChatPage_sendMessage eng uid uid' fresh out w = w"
    by (simp add: ChatPage_sendMessage_def)
next
  assume b: "list_all is_ws (input (ui x))"
  then show "BlockExplorerChat_sendMessage_begin uid (ui x) = None"
    by (simp add: BlockExplorerChat_sendMessage_begin_def trim_blank)
  then show "BlockExplorerChat_sendMessage eng uid uid' fresh out x = x"
    by (simp add: BlockExplorerChat_sendMessage_def)
next
  assume n: "\<not> list_all is_ws (input (ui w))"
  then have q: "trim (input (ui w)) \<noteq> []" by (simp add: trim_blank)
  from q show "map_option (messages \<circ> fst) (ChatPage_sendMessage_begin eng uid (ui w)) =
        Some (messages (ui w) @ [\<lparr>id_msg = uid, role = User, text_msg = Some (JString (trim (input (ui w)))), via = None\<rparr>])"
    by (simp add: ChatPage_sendMessage_begin_def Let_def userMsg_def)
  from q show "net (ChatPage_sendMessage eng uid uid' fresh out w) =
        net w @ [chat_request eng (trim (input (ui w))) (selectedModel (ui w))]"
    by (simp add: ChatPage_sendMessage_def ChatPage_sendMessage_begin_def Let_def ChatPage_resume_net)
  from q show "filter (\<lambda>m. role m = User) (messages (ui (ChatPage_sendMessage eng uid uid' fresh out w))) =
        filter (\<lambda>m. role m = User) (messages (ui w)) @ [\<lparr>id_msg = uid, role = User, text_msg = Some (JString (trim (input (ui w)))), via = None\<rparr>]"
    by (simp add: ChatPage_sendMessage_def ChatPage_sendMessage_begin_def Let_def
        ChatPage_resume_users userMsg_def)
next
  assume n: "\<not> list_all is_ws (input (ui x))"
  then have q: "trim (input (ui x)) \<noteq> []" by (simp add: trim_blank)
  from q show "map_option (messages \<circ> fst) (BlockExplorerChat_sendMessage_begin uid (ui x)) =
        Some (messages (ui x) @ [\<lparr>id_msg = uid, role = User, text_msg = Some (JString (trim (input (ui x)))), via = None\<rparr>])"
    by (simp add: BlockExplorerChat_sendMessage_begin_def Let_def userMsg_def)
  from q show "net (BlockExplorerChat_sendMessage eng uid uid' fresh out x) =
        net x @ [explorer_request (trim (input (ui x)))]"
    by (simp add: BlockExplorerChat_sendMessage_def BlockExplorerChat_sendMessage_begin_def Let_def
        explorer_resume_net)
  from q show "filter (\<lambda>m. role m = User) (messages (ui (BlockExplorerChat_sendMessage eng uid uid' fresh out x))) =
        filter (\<lambda>m. role m = User) (messages (ui x)) @ [\<lparr>id_msg = uid, role = User, text_msg = Some (JString (trim (input (ui x)))), via = None\<rparr>]"
    by (simp add: BlockExplorerChat_sendMessage_def BlockExplorerChat_sendMessage_begin_def Let_def
        explorer_resume_users userMsg_def)
qed


text \<open>
  Claim C3 at concrete inputs: an input of a space, a tab and a line feed, and the
  inputs \<open>''  Hello ''\<close> and \<open>''latest block?''\<close>.
\<close>

theorem C3_witness:
  "list_all is_ws (input (ui (chat0\<lparr>ui := (ui chat0)\<lparr>input := [CHR 0x20, CHR 0x09, CHR 0x0A]\<rparr>\<rparr>))) \<and>
   ChatPage_sendMessage example_engine ''u1'' ''u2'' 1 (Rejects (JsError ''Failed to fetch''))
       (chat0\<lparr>ui := (ui chat0)\<lparr>input := [CHR 0x20, CHR 0x09, CHR 0x0A]\<rparr>\<rparr>) =
     chat0\<lparr>ui := (ui chat0)\<lparr>input := [CHR 0x20, CHR 0x09, CHR 0x0A]\<rparr>\<rparr> \<and>
   \<not> list_all is_ws (input (ui chat0)) \<and>
   \<not> list_all is_ws (input (ui explorer0)) \<and>
   net (ChatPage_sendMessage example_engine ''u1'' ''u2'' 1 (Rejects (JsError ''Failed to fetch'')) chat0) =
     [chat_request example_engine ''Hello'' ''auto''] \<and>
   filter (\<lambda>m. role m = User)
     (messages (ui (ChatPage_sendMessage example_engine ''u1'' ''u2'' 1
        (Rejects (JsError ''Failed to fetch'')) chat0))) =
     [\<lparr>id_msg = ''u1'', role = User, text_msg = Some (JString ''Hello''), via = None\<rparr>] \<and>
   map_option (messages \<circ> fst) (ChatPage_sendMessage_begin example_engine ''u1'' (ui chat0)) =
     Some [\<lparr>id_msg = ''u1'', role = User, text_msg = Some (JString ''Hello''), via = None\<rparr>] \<and>
   net (BlockExplorerChat_sendMessage example_engine ''u1'' ''u2'' 1 (Responds True (Inr ''Plain text''))
        explorer0) = [explorer_request ''latest block?''] \<and>
   filter (\<lambda>m. role m = User)
     (messages (ui (BlockExplorerChat_sendMessage example_engine ''u1'' ''u2'' 1
        (Responds True (Inr ''Plain text'')) explorer0))) =
     [\<lparr>id_msg = ''u1'', role = User, text_msg = Some (JString ''latest block?''), via = None\<rparr>]"
proof -
  let ?b = "chat0\<lparr>ui := (ui chat0)\<lparr>input := [CHR 0x20, CHR 0x09, CHR 0x0A]\<rparr>\<rparr>"
  have b: "list_all is_ws (input (ui ?b))" by (simp add: is_ws_def)
  have n: "\<not> list_all is_ws (input (ui chat0))" by (simp add: chat0_def is_ws_def)
  have x: "\<not> list_all is_ws (input (ui explorer0))" by (simp add: explorer0_def is_ws_def)
  have t: "trim (input (ui chat0)) = ''Hello''" by (simp add: chat0_def trim_def is_ws_def)
  have tx: "trim (input (ui explorer0)) = ''latest block?''"
    by (simp add: explorer0_def trim_def is_ws_def)
  have s: "selectedModel (ui chat0) = ''auto''" "net chat0 = []" "messages (ui chat0) = []"
    "net explorer0 = []" "messages (ui explorer0) = []"
    by (simp_all add: chat0_def explorer0_def)
  show ?thesis
    using b n x
      C3_blank_is_noop_else_one_user_message [where w = ?b and x = explorer0
        and eng = example_engine and uid = "''u1''" and uid' = "''u2''" and fresh = 1
        and out = "Rejects (JsError ''Failed to fetch'')"]
      C3_blank_is_noop_else_one_user_message [where w = chat0 and x = explorer0
        and eng = example_engine and uid = "''u1''" and uid' = "''u2''" and fresh = 1
        and out = "Rejects (JsError ''Failed to fetch'')"]
      C3_blank_is_noop_else_one_user_message [where w = chat0 and x = explorer0
        and eng = example_engine and uid = "''u1''" and uid' = "''u2''" and fresh = 1
        and out = "Responds True (Inr ''Plain text'')"]
    by (simp add: t tx s)
qed

subsection \<open>Which dispatches throw\<close>

lemma ChatPage_try_thrown:
  "ChatPage_try eng uid' (Rejects e) = Inl e"
  "ChatPage_try eng uid' (Responds ok (Inl e)) = Inl e"
  "ChatPage_try eng uid' (Responds False (Inr t)) = Inl (JsError t)"
  "JSON_parse eng t = Inl m \<Longrightarrow> ChatPage_try eng uid' (Responds True (Inr t)) = Inl (JsError m)"
  "JSON_parse eng t = Inr JNull \<Longrightarrow>
     ChatPage_try eng uid' (Responds True (Inr t)) = Inl (JsError (null_read eng ''response''))"
  by (simp_all add: ChatPage_try_def apiPost_def)



lemma explorer_try_thrown:
  "BlockExplorerChat_try eng uid' (Rejects e) = Inl e"
  "BlockExplorerChat_try eng uid' (Responds ok (Inl e)) = Inl e"
  "BlockExplorerChat_try eng uid' (Responds False (Inr t)) = Inl (JsError t)"
  by (simp_all add: BlockExplorerChat_try_def)

lemma explorer_try_reply:
  "BlockExplorerChat_try eng uid' (Responds True (Inr raw)) =
     Inr \<lparr>id_msg = uid', role = Ai, text_msg = Some (JString (resolve_md eng raw)), via = None\<rparr>"
  by (simp add: BlockExplorerChat_try_def)

subsection \<open>The text of a block-explorer reply\<close>

text \<open>
  Claim C1. For a response body \<open>raw\<close> of the block explorer: when \<^verbatim>\<open>JSON.parse\<close> gives a
  string, that string is the text; when it gives an object whose \<open>response\<close> property is a
  string, that property is the text; when it throws, the text is \<open>raw\<close> itself. The text so
  resolved is the text of the one AI message appended for a response with an \<^verbatim>\<open>ok\<close> status.
\<close>

theorem C1_explorer_text_precedence:
  "(JSON_parse eng raw = Inr (JString s) \<longrightarrow> resolve_md eng raw = s) \<and>
   (JSON_parse eng raw = Inr (JObject kvs) \<and> map_of kvs ''response'' = Some (JString r) \<longrightarrow>
      resolve_md eng raw = r) \<and>
   (JSON_parse eng raw = Inl m \<longrightarrow> resolve_md eng raw = raw) \<and>
   messages (ui (BlockExplorerChat_sendMessage_resume eng uid' fresh (Responds True (Inr raw)) w)) =
     messages (ui w) @
       [\<lparr>id_msg = uid', role = Ai, text_msg = Some (JString (resolve_md eng raw)), via = None\<rparr>]"
  by (simp add: resolve_md_def explorer_resume_reply [OF explorer_try_reply])

text \<open>
  Claim C1 on the three bodies of the specification: plain text that is not JSON, a JSON
  string, and an object with a \<open>response\<close> member.
\<close>

theorem C1_witness:
  "JSON_parse example_engine ''Plain text'' = Inl ''Unexpected token'' \<and>
   resolve_md example_engine ''Plain text'' = ''Plain text'' \<and>
   JSON_parse example_engine ''\"Quoted\"'' = Inr (JString ''Quoted'') \<and>
   resolve_md example_engine ''\"Quoted\"'' = ''Quoted'' \<and>
   JSON_parse example_engine ''{\"response\":\"Nested\"}'' =
     Inr (JObject [(''response'', JString ''Nested'')]) \<and>
   map_of [(''response'', JString ''Nested'')] ''response'' = Some (JString ''Nested'') \<and>
   resolve_md example_engine ''{\"response\":\"Nested\"}'' = ''Nested''"
proof -
  have a: "JSON_parse example_engine ''Plain text'' = Inl ''Unexpected token''"
    by (simp add: example_engine_def)
  have b: "JSON_parse example_engine ''\"Quoted\"'' = Inr (JString ''Quoted'')"
    by (simp add: example_engine_def)
  have c: "JSON_parse example_engine ''{\"response\":\"Nested\"}'' =
      Inr (JObject [(''response'', JString ''Nested'')])"
    by (simp add: example_engine_def)
  have d: "map_of [(''response'', JString ''Nested'')] ''response'' = Some (JString ''Nested'')"
    by simp
  show ?thesis
    using a b c d
      C1_explorer_text_precedence [where eng = example_engine and raw = "''Plain text''"
        and m = "''Unexpected token''"]
      C1_explorer_text_precedence [where eng = example_engine and raw = "''\"Quoted\"''"
        and s = "''Quoted''"]
      C1_explorer_text_precedence [where eng = example_engine
        and raw = "''{\"response\":\"Nested\"}''" and kvs = "[(''response'', JString ''Nested'')]"
        and r = "''Nested''"]
    by blast
qed

subsection \<open>The in-flight flag\<close>

text \<open>
  Claim C6. Whatever the \<^verbatim>\<open>fetch\<close> settles to, and so whether the \<^verbatim>\<open>try\<close> block ends with a
  reply or with a thrown value (a failed request, or an exception from reading or parsing
  the response), the state left by the continuation of a dispatch has \<open>loading\<close> false, on
  both surfaces; so has the state left by a whole \<open>sendMessage\<close> that dispatched.
\<close>

theorem C6_loading_cleared_at_the_end:
  fixes w :: "chat_page world" and x :: "chat_surface world"
  shows
  "\<not> loading (ui (ChatPage_sendMessage_resume eng uid' fresh out w)) \<and>
   \<not> loading (ui (BlockExplorerChat_sendMessage_resume eng uid' fresh out x)) \<and>
   (\<not> list_all is_ws (input (ui w)) \<longrightarrow>
      \<not> loading (ui (ChatPage_sendMessage eng uid uid' fresh out w))) \<and>
   (\<not> list_all is_ws (input (ui x)) \<longrightarrow>
      \<not> loading (ui (BlockExplorerChat_sendMessage eng uid uid' fresh out x)))"
proof -
  have a: "\<not> loading (ui (ChatPage_sendMessage_resume eng uid' fresh out v))" for v
    by (cases "ChatPage_try eng uid' out")
       (simp_all add: ChatPage_resume_thrown ChatPage_resume_reply)
  have b: "\<not> loading (ui (BlockExplorerChat_sendMessage_resume eng uid' fresh out v))" for v
    by (cases "BlockExplorerChat_try eng uid' out")
       (simp_all add: explorer_resume_thrown explorer_resume_reply)
  show ?thesis
    by (simp add: a b ChatPage_sendMessage_def ChatPage_sendMessage_begin_def
        BlockExplorerChat_sendMessage_def BlockExplorerChat_sendMessage_begin_def
        Let_def trim_blank)
qed


text \<open>
  Claim C6 at a reply, at a status that is not \<^verbatim>\<open>ok\<close>, at a body that is not JSON and at a
  rejected \<^verbatim>\<open>fetch\<close>.
\<close>

theorem C6_witness:
  "\<not> list_all is_ws (input (ui chat0)) \<and> \<not> list_all is_ws (input (ui explorer0)) \<and>
   \<not> loading (ui (ChatPage_sendMessage example_engine ''u1'' ''u2'' 1
        (Responds True (Inr ''{\"response\":\"Hi\",\"response_generated_via\":\"gpt-4o-mini\"}'')) chat0)) \<and>
   \<not> loading (ui (ChatPage_sendMessage example_engine ''u1'' ''u2'' 1
        (Responds False (Inr ''model not found'')) chat0)) \<and>
   \<not> loading (ui (ChatPage_sendMessage example_engine ''u1'' ''u2'' 1
        (Responds True (Inr ''<html>'')) chat0)) \<and>
   \<not> loading (ui (BlockExplorerChat_sendMessage example_engine ''u1'' ''u2'' 1
        (Rejects (JsError ''Failed to fetch'')) explorer0))"
proof -
  have n: "\<not> list_all is_ws (input (ui chat0))" by (simp add: chat0_def is_ws_def)
  have x: "\<not> list_all is_ws (input (ui explorer0))" by (simp add: explorer0_def is_ws_def)
  show ?thesis
    using n x
      C6_loading_cleared_at_the_end [where w = chat0 and x = explorer0 and eng = example_engine
        and uid = "''u1''" and uid' = "''u2''" and fresh = 1
        and out = "Responds True (Inr ''{\"response\":\"Hi\",\"response_generated_via\":\"gpt-4o-mini\"}'')"]
      C6_loading_cleared_at_the_end [where w = chat0 and x = explorer0 and eng = example_engine
        and uid = "''u1''" and uid' = "''u2''" and fresh = 1
        and out = "Responds False (Inr ''model not found'')"]
      C6_loading_cleared_at_the_end [where w = chat0 and x = explorer0 and eng = example_engine
        and uid = "''u1''" and uid' = "''u2''" and fresh = 1
        and out = "Responds True (Inr ''<html>'')"]
      C6_loading_cleared_at_the_end [where w = chat0 and x = explorer0 and eng = example_engine
        and uid = "''u1''" and uid' = "''u2''" and fresh = 1
        and out = "Rejects (JsError ''Failed to fetch'')"]
    by blast
qed

subsection \<open>A dispatch that throws\<close>

lemma ChatPage_sendMessage_thrown:
  assumes "\<not> list_all is_ws (input (ui w))" and "ChatPage_try eng uid' out = Inl e"
  shows "ChatPage_sendMessage eng uid uid' fresh out w =
    w\<lparr>ui := (ui w)\<lparr>input := [], messages := messages (ui w) @ [userMsg uid (trim (input (ui w)))],
                     loading := False\<rparr>,
      net := net w @ [chat_request eng (trim (input (ui w))) (selectedModel (ui w))],
      toasts := toasts w @
        [\<lparr>id_toast = fresh, text_toast = parseApiError e, type_toast = Some Error\<rparr>]\<rparr>"
  using assms
  by (simp add: ChatPage_sendMessage_def ChatPage_sendMessage_begin_def Let_def trim_blank
      ChatPage_resume_thrown)

lemma explorer_sendMessage_thrown:
  assumes "\<not> list_all is_ws (input (ui w))" and "BlockExplorerChat_try eng uid' out = Inl e"
  shows "BlockExplorerChat_sendMessage eng uid uid' fresh out w =
    w\<lparr>ui := (ui w)\<lparr>input := [], messages := messages (ui w) @ [userMsg uid (trim (input (ui w)))],
                     loading := False\<rparr>,
      net := net w @ [explorer_request (trim (input (ui w)))],
      toasts := toasts w @
        [\<lparr>id_toast = fresh, text_toast = parseApiError e, type_toast = Some Error\<rparr>]\<rparr>"
  using assms
  by (simp add: BlockExplorerChat_sendMessage_def BlockExplorerChat_sendMessage_begin_def Let_def
      trim_blank explorer_resume_thrown)

text \<open>
  Claim C10. When a dispatch throws, on either surface, the conversation after the run is
  the conversation before it followed by the one user message: the message stored before
  the request is not taken back, and no reply follows it.
\<close>

theorem C10_user_message_stays_after_failure:
  fixes w :: "chat_page world" and x :: "chat_surface world"
  shows
  "(\<not> list_all is_ws (input (ui w)) \<and> ChatPage_try eng uid' out = Inl e \<longrightarrow>
      messages (ui (ChatPage_sendMessage eng uid uid' fresh out w)) =
        messages (ui w) @ [userMsg uid (trim (input (ui w)))]) \<and>
   (\<not> list_all is_ws (input (ui x)) \<and> BlockExplorerChat_try eng uid' out = Inl e \<longrightarrow>
      messages (ui (BlockExplorerChat_sendMessage eng uid uid' fresh out x)) =
        messages (ui x) @ [userMsg uid (trim (input (ui x)))])"
  by (simp add: ChatPage_sendMessage_thrown explorer_sendMessage_thrown)

text \<open>
  Claim C10 at a response \<^verbatim>\<open>model not found\<close> with a status that is not \<^verbatim>\<open>ok\<close> and at a
  rejected \<^verbatim>\<open>fetch\<close>.
\<close>

theorem C10_witness:
  "\<not> list_all is_ws (input (ui chat0)) \<and>
   ChatPage_try example_engine ''u2'' (Responds False (Inr ''model not found'')) =
     Inl (JsError ''model not found'') \<and>
   messages (ui (ChatPage_sendMessage example_engine ''u1'' ''u2'' 1
       (Responds False (Inr ''model not found'')) chat0)) = [userMsg ''u1'' ''Hello''] \<and>
   \<not> list_all is_ws (input (ui explorer0)) \<and>
   BlockExplorerChat_try example_engine ''u2'' (Rejects (JsError ''Failed to fetch'')) =
     Inl (JsError ''Failed to fetch'') \<and>
   messages (ui (BlockExplorerChat_sendMessage example_engine ''u1'' ''u2'' 1
       (Rejects (JsError ''Failed to fetch'')) explorer0)) = [userMsg ''u1'' ''latest block?'']"
proof -
  have n: "\<not> list_all is_ws (input (ui chat0))" by (simp add: chat0_def is_ws_def)
  have x: "\<not> list_all is_ws (input (ui explorer0))" by (simp add: explorer0_def is_ws_def)
  have t: "trim (input (ui chat0)) = ''Hello''" "messages (ui chat0) = []"
    by (simp_all add: chat0_def trim_def is_ws_def)
  have tx: "trim (input (ui explorer0)) = ''latest block?''" "messages (ui explorer0) = []"
    by (simp_all add: explorer0_def trim_def is_ws_def)
  have a: "ChatPage_try example_engine ''u2'' (Responds False (Inr ''model not found'')) =
     Inl (JsError ''model not found'')"
    by (rule ChatPage_try_thrown)
  have b: "BlockExplorerChat_try example_engine ''u2'' (Rejects (JsError ''Failed to fetch'')) =
     Inl (JsError ''Failed to fetch'')"
    by (rule explorer_try_thrown)
  show ?thesis
    using n x a b
      C10_user_message_stays_after_failure [where w = chat0 and x = explorer0
        and eng = example_engine and uid = "''u1''" and uid' = "''u2''" and fresh = 1
        and out = "Responds False (Inr ''model not found'')" and e = "JsError ''model not found''"]
      C10_user_message_stays_after_failure [where w = chat0 and x = explorer0
        and eng = example_engine and uid = "''u1''" and uid' = "''u2''" and fresh = 1
        and out = "Rejects (JsError ''Failed to fetch'')" and e = "JsError ''Failed to fetch''"]
    by (simp add: t tx)
qed

subsection \<open>The model chat: request and reply\<close>

lemma chat_request_body:
  "body (chat_request eng q sel) = Some (JObject [(''query'', JString q), (''modelId'', modelId eng sel)])"
  by (simp add: chat_request_def apiPost_request_def)

lemma ChatPage_begin_request:
  "ChatPage_sendMessage_begin eng uid s = Some (s', req) \<Longrightarrow>
   req = chat_request eng (trim (input s)) (selectedModel s)"
  by (auto simp: ChatPage_sendMessage_begin_def Let_def split: if_splits)

lemma ChatPage_try_fields:
  assumes "JSON_parse eng t = Inr (JObject kvs)"
  shows "ChatPage_try eng uid' (Responds True (Inr t)) =
     Inr \<lparr>id_msg = uid', role = Ai, text_msg = map_of kvs ''response'',
          via = map_of kvs ''response_generated_via''\<rparr>"
  by (simp add: ChatPage_try_def apiPost_def assms)

lemma ChatPage_reply_appended:
  assumes "JSON_parse eng t = Inr (JObject kvs)"
    and "map_of kvs ''response'' = Some (JString r)"
    and "map_of kvs ''response_generated_via'' = Some (JString v)"
  shows "ChatPage_sendMessage_resume eng uid' fresh (Responds True (Inr t)) w =
     w\<lparr>ui := (ui w)\<lparr>messages := messages (ui w) @
          [\<lparr>id_msg = uid', role = Ai, text_msg = Some (JString r), via = Some (JString v)\<rparr>],
        loading := False\<rparr>\<rparr>"
proof -
  have "ChatPage_try eng uid' (Responds True (Inr t)) =
      Inr \<lparr>id_msg = uid', role = Ai, text_msg = Some (JString r), via = Some (JString v)\<rparr>"
    using ChatPage_try_fields [OF assms(1)] assms(2,3) by simp
  then show ?thesis by (rule ChatPage_resume_reply)
qed

lemma ChatPage_sendMessage_from_self:
  "ChatPage_sendMessage_from eng uid s s = ChatPage_sendMessage_begin eng uid s"
  by (simp add: ChatPage_sendMessage_from_def ChatPage_sendMessage_begin_def)

lemma stale_view_eq:
  "stale_view =
     \<lparr>page = \<lparr>messages = [], input = ''Hello'', loading = False, selectedModel = ''7''\<rparr>,
      listener = \<lparr>messages = [], input = ''Hello'', loading = False, selectedModel = ''auto''\<rparr>\<rparr>"
  by (simp add: stale_view_def ChatPage_onChange_model_def ChatPage_onChange_input_def
      ChatPage_render_def ChatPage_mount_def option_value_def example_engine_def llm7_def)

text \<open>
  Claim C4 says that the request of every model-chat dispatch carries \<^verbatim>\<open>null\<close> for the
  selection \<^verbatim>\<open>'auto'\<close> and otherwise the identifier of the selected model. After the user typed
  \<^verbatim>\<open>Hello\<close> and then chose the model with identifier 7, the selection of the view is \<^verbatim>\<open>'7'\<close>,
  but the key listener still holds the closure of the render in which the text changed,
  with the selection \<^verbatim>\<open>'auto'\<close>: on Ctrl/Cmd+Enter the request carries \<open>modelId\<close> \<^verbatim>\<open>null\<close>, for
  every engine, where the Send button sends 7 from the same state.
\<close>

theorem C4_key_listener_sends_stale_selection:
  "option_value example_engine llm7 = ''7'' \<and>
   selectedModel (page stale_view) = ''7'' \<and>
   selectedModel (listener stale_view) = ''auto'' \<and>
   map_option (body \<circ> snd) (ChatPage_onEnter eng uid stale_view) =
     Some (Some (JObject [(''query'', JString ''Hello''), (''modelId'', JNull)])) \<and>
   map_option (body \<circ> snd) (ChatPage_sendMessage_begin example_engine uid (page stale_view)) =
     Some (Some (JObject [(''query'', JString ''Hello''), (''modelId'', JNumber 7)]))"
proof -
  have t: "trim ''Hello'' = ''Hello''" by (simp add: trim_def is_ws_def)
  have v: "option_value example_engine llm7 = ''7''"
    by (simp add: option_value_def example_engine_def llm7_def)
  have k: "map_option (body \<circ> snd) (ChatPage_onEnter eng uid stale_view) =
     Some (Some (JObject [(''query'', JString ''Hello''), (''modelId'', JNull)]))"
    by (simp add: stale_view_eq ChatPage_onEnter_def ChatPage_sendMessage_from_def t Let_def
        chat_request_body modelId_def)
  have b: "map_option (body \<circ> snd) (ChatPage_sendMessage_begin example_engine uid (page stale_view)) =
     Some (Some (JObject [(''query'', JString ''Hello''), (''modelId'', JNumber 7)]))"
    by (simp add: stale_view_eq ChatPage_sendMessage_begin_def t Let_def chat_request_body
        modelId_def example_engine_def)
  show ?thesis
    by (simp add: v k b) (simp add: stale_view_eq)
qed

subsection \<open>Failures and the error toast\<close>




subsection \<open>Registration\<close>

text \<open>
  Claim C7. When the model name or the provider name is empty or holds white space only,
  \<open>onSubmit\<close> issues no request and changes no field; it pushes exactly one toast, of type
  \<open>Error\<close>, with the text \<^verbatim>\<open>Model name and company are required\<close>.
\<close>

theorem C7_blank_name_rejected_locally:
  "list_all is_ws (modelName (ui w)) \<or> list_all is_ws (companyName (ui w)) \<longrightarrow>
     net (RegisterPage_onSubmit eng onRegistered fresh out w) = net w \<and>
     ui (RegisterPage_onSubmit eng onRegistered fresh out w) = ui w \<and>
     toasts (RegisterPage_onSubmit eng onRegistered fresh out w) =
       toasts w @ [\<lparr>id_toast = fresh, text_toast = ''Model name and company are required'',
                     type_toast = Some Error\<rparr>]"
  by (auto simp: RegisterPage_onSubmit_def trim_blank toast_push_def)

text \<open>Claim C7 at a model name of three spaces and at an empty provider name.\<close>

theorem C7_witness:
  "list_all is_ws (modelName (ui (register0\<lparr>ui := (ui register0)\<lparr>modelName := ''   ''\<rparr>\<rparr>))) \<and>
   net (RegisterPage_onSubmit example_engine reloadModels_begin 1 (Responds True (Inr ''{}''))
         (register0\<lparr>ui := (ui register0)\<lparr>modelName := ''   ''\<rparr>\<rparr>)) = [] \<and>
   toasts (RegisterPage_onSubmit example_engine reloadModels_begin 1 (Responds True (Inr ''{}''))
         (register0\<lparr>ui := (ui register0)\<lparr>modelName := ''   ''\<rparr>\<rparr>)) =
     [\<lparr>id_toast = 1, text_toast = ''Model name and company are required'',
       type_toast = Some Error\<rparr>] \<and>
   list_all is_ws (companyName (ui (register0\<lparr>ui := (ui register0)\<lparr>companyName := []\<rparr>\<rparr>))) \<and>
   net (RegisterPage_onSubmit example_engine reloadModels_begin 1 (Responds True (Inr ''{}''))
         (register0\<lparr>ui := (ui register0)\<lparr>companyName := []\<rparr>\<rparr>)) = []"
proof -
  let ?a = "register0\<lparr>ui := (ui register0)\<lparr>modelName := ''   ''\<rparr>\<rparr>"
  let ?b = "register0\<lparr>ui := (ui register0)\<lparr>companyName := []\<rparr>\<rparr>"
  have a: "list_all is_ws (modelName (ui ?a))" by (simp add: is_ws_def)
  have b: "list_all is_ws (companyName (ui ?b))" by simp
  have z: "net ?a = []" "toasts ?a = []" "net ?b = []" by (simp_all add: register0_def)
  show ?thesis
    using a b
      C7_blank_name_rejected_locally [where w = ?a and eng = example_engine
        and onRegistered = reloadModels_begin and fresh = 1 and out = "Responds True (Inr ''{}'')"]
      C7_blank_name_rejected_locally [where w = ?b and eng = example_engine
        and onRegistered = reloadModels_begin and fresh = 1 and out = "Responds True (Inr ''{}'')"]
    by (simp add: z)
qed



subsection \<open>The first fetch of the model list\<close>

text \<open>
  Claim C9 says that tearing the view down aborts the first fetch of the model list and
  discards its result. The effect creates a controller and its cleanup aborts it, but the
  call is \<^verbatim>\<open>apiGet('/')\<close>, without the signal: the request carries none, so after the teardown
  it settles as the server decides, where a request carrying the signal of \<open>c\<close> would be
  rejected; and the promise chain still runs, here pushing the toast of a failed fetch into
  the store.
\<close>

theorem C9_mount_fetch_has_no_signal:
  "signal (last (net (App_effect c w))) = None \<and>
   fetch_settles eng (aborted (App_unmount c (App_effect c w))) (last (net (App_effect c w))) server =
     server \<and>
   fetch_settles eng (aborted (App_unmount c (App_effect c w))) (apiGet_request ''/'' (Some c)) server =
     Rejects (JsError (abort_message eng)) \<and>
   toasts (App_effect_resume eng fresh
       (fetch_settles eng (aborted (App_unmount c (App_effect c w))) (last (net (App_effect c w)))
          (Responds False (Inr ''registry down'')))
       (App_unmount c (App_effect c w))) =
     toasts w @ [\<lparr>id_toast = fresh, text_toast = ''registry down'', type_toast = Some Error\<rparr>]"
proof -
  have s: "signal (last (net (App_effect c w))) = None"
    by (simp add: App_effect_def apiGet_request_def)
  have f: "fetch_settles eng ab (last (net (App_effect c w))) server = server" for ab server
    by (simp add: fetch_settles_def s)
  have t: "toasts (App_unmount c (App_effect c w)) = toasts w"
    by (simp add: App_unmount_def App_cleanup_def App_effect_def set_app_def Let_def)
  have m: "\<not> mounted (ui (App_unmount c (App_effect c w)))"
    by (simp add: App_unmount_def Let_def)
  show ?thesis
    by (simp add: s f t m App_effect_resume_def apiGet_def raise_error_def toast_push_def
        set_app_def Let_def)
       (simp add: fetch_settles_def apiGet_request_def App_unmount_def App_cleanup_def Let_def)
qed

subsection \<open>Toast expiry\<close>

text \<open>
  The run of the timers has fuel enough: from a container whose timers are those its effect
  set, no timer due by \<open>t\<close> is left after \<open>elapse t\<close>.
\<close>

lemma fold_min_in: "fold min xs (a::nat) \<in> set (a # xs)"
  by (induction xs arbitrary: a) (auto simp: min_def)

lemma next_due_in: "next_due t tms = Some tm \<Longrightarrow> tm \<in> set tms \<and> due tm \<le> t"
proof -
  assume a: "next_due t tms = Some tm"
  let ?f = "filter (\<lambda>tm. due tm \<le> t) tms"
  from a obtain d ds where f: "?f = d # ds"
    by (auto simp: next_due_def split: list.splits)
  let ?m = "fold min (map due ds) (due d)"
  let ?g = "filter (\<lambda>tm. due tm = ?m) (d # ds)"
  have "?m \<in> set (map due (d # ds))" using fold_min_in [of "map due ds" "due d"] by simp
  then have "?g \<noteq> []" by (auto simp: filter_empty_conv)
  then have "hd ?g \<in> set ?g" by (rule hd_in_set)
  then have "hd ?g \<in> set (d # ds)" by (metis filter_is_subset subsetD)
  moreover from a f have "tm = hd ?g" by (simp add: next_due_def)
  ultimately have "tm \<in> set ?f" using f by simp
  then show ?thesis by simp
qed

lemma next_due_None: "next_due t tms = None \<longleftrightarrow> list_all (\<lambda>tm. t < due tm) tms"
proof -
  have "next_due t tms = None \<longleftrightarrow> filter (\<lambda>tm. due tm \<le> t) tms = []"
    by (simp add: next_due_def split: list.splits)
  also have "\<dots> \<longleftrightarrow> list_all (\<lambda>tm. t < due tm) tms"
    by (simp add: filter_empty_conv list_all_iff not_le)
  finally show ?thesis .
qed

lemma remove_shorter:
  "i \<in> set (map id_toast ts) \<Longrightarrow> length (toast_remove i ts) < length ts"
  by (induction ts) (auto simp: toast_remove_def less_Suc_eq_le)

lemma run_timers_settles:
  "map target (timers tc) = map id_toast (shown tc) \<Longrightarrow> length (shown tc) \<le> k \<Longrightarrow>
   list_all (\<lambda>tm. t < due tm) (timers (run_timers k t tc))"
proof (induction k arbitrary: tc)
  case 0
  then show ?case by simp
next
  case (Suc k)
  show ?case
  proof (cases "next_due t (timers tc)")
    case None
    then have "list_all (\<lambda>tm. t < due tm) (timers tc)" by (simp add: next_due_None)
    with None show ?thesis by simp
  next
    case (Some tm)
    then have "tm \<in> set (timers tc)" using next_due_in by blast
    then have "target tm \<in> set (map target (timers tc))" by simp
    then have "target tm \<in> set (map id_toast (shown tc))" using Suc.prems(1) by simp
    then have "length (toast_remove (target tm) (shown tc)) < length (shown tc)"
      by (rule remove_shorter)
    then have l: "length (shown (timer_fires tm tc)) \<le> k"
      using Suc.prems(2) by (simp add: timer_fires_def ToastContainer_effect_def)
    have i: "map target (timers (timer_fires tm tc)) = map id_toast (shown (timer_fires tm tc))"
      by (simp add: timer_fires_def ToastContainer_effect_def comp_def)
    from Suc.IH [OF i l] Some show ?thesis by simp
  qed
qed

lemma elapse_settles:
  "map target (timers tc) = map id_toast (shown tc) \<Longrightarrow>
   list_all (\<lambda>tm. t < due tm) (timers (elapse t tc))"
  by (simp add: elapse_def run_timers_settles)

lemma push_at_timers:
  "map target (timers (push_at now rnd txt ty tc)) = map id_toast (shown (push_at now rnd txt ty tc))"
  "list_all (\<lambda>tm. due tm = now + 3500) (timers (push_at now rnd txt ty tc))"
  by (simp_all add: push_at_def ToastContainer_effect_def comp_def list_all_iff)

lemma A_alone: "toast_A_alone =
   \<lparr>shown = [\<lparr>id_toast = 1 / 2, text_toast = ''A'', type_toast = Some Error\<rparr>],
    timers = [\<lparr>target = 1 / 2, due = 3500\<rparr>]\<rparr>"
  by (simp add: toast_A_alone_def push_at_def ToastContainer_effect_def toast_push_def)

lemma A_then_B: "toast_A_then_B =
   \<lparr>shown = [\<lparr>id_toast = 1 / 2, text_toast = ''A'', type_toast = Some Error\<rparr>,
             \<lparr>id_toast = 2000 + 1 / 4, text_toast = ''B'', type_toast = None\<rparr>],
    timers = [\<lparr>target = 1 / 2, due = 5500\<rparr>, \<lparr>target = 2000 + 1 / 4, due = 5500\<rparr>]\<rparr>"
  by (simp add: toast_A_then_B_def A_alone elapse_def next_due_def push_at_def
      ToastContainer_effect_def toast_push_def)

text \<open>
  Claim C2 says that a toast is removed 3.5 seconds after its own push, whatever else is
  pushed or removed meanwhile. In the code every push restarts the timers of all toasts
  shown: after any push at time \<open>now\<close> every timer is due at \<open>now + 3500\<close>. Toast \<open>A\<close>, pushed
  at time 0, is gone at 3500 when left alone; when \<open>B\<close> is pushed at 2000, \<open>A\<close> is still shown
  at 3500 and up to 5499, and is removed at 5500.
\<close>

theorem C2_other_push_restarts_expiry:
  "list_all (\<lambda>tm. due tm = now + 3500) (timers (push_at now rnd txt ty tc)) \<and>
   map text_toast (shown (elapse 3499 toast_A_alone)) = [''A''] \<and>
   map text_toast (shown (elapse 3500 toast_A_alone)) = [] \<and>
   timers toast_A_then_B = [\<lparr>target = 1 / 2, due = 5500\<rparr>, \<lparr>target = 2000 + 1 / 4, due = 5500\<rparr>] \<and>
   map text_toast (shown (elapse 3500 toast_A_then_B)) = [''A'', ''B''] \<and>
   map text_toast (shown (elapse 5499 toast_A_then_B)) = [''A'', ''B''] \<and>
   ''A'' \<notin> set (map text_toast (shown (elapse 5500 toast_A_then_B)))"
  by (simp add: push_at_timers A_alone A_then_B elapse_def next_due_def timer_fires_def
      toast_remove_def ToastContainer_effect_def)

end
